theory Spec2Isabelle
  imports Main "HOL-Library.AList"
begin

section \<open>Experimental features: resolution, override store and notification\<close>

text \<open>
  A shallow embedding of \<^verbatim>\<open>packages/webviz-core/src/components/ExperimentalFeatures.js\<close>:
  the functions \<^verbatim>\<open>getExperimentalFeatureSettings\<close>, \<^verbatim>\<open>useAllExperimentalFeatures\<close>,
  \<^verbatim>\<open>useExperimentalFeature\<close>, \<^verbatim>\<open>getExperimentalFeature\<close>, \<^verbatim>\<open>setExperimentalFeature\<close>
  and the \<^verbatim>\<open>onChange\<close> handler of the modal's radio buttons. The rest of the file is
  presentation.

  Conventions of the model.
  \<^item> A JavaScript object used as a dictionary is the association list of its own
    enumerable properties (for the stored value) or a map (for the settings that
    resolution builds). The order in which an object lists its keys is not modelled.
  \<^item> The settings and the object that the write path builds are plain objects, with
    \<^verbatim>\<open>Object.prototype\<close> behind them: a read of the settings finds the inherited members
    too, and an assignment to the key \<^verbatim>\<open>__proto__\<close> goes to the inherited setter. Of the
    stored value only the own properties are read, since what resolution does with an
    entry depends only on whether it is one of two strings, which no inherited member is.
  \<^item> An exception is a value \<open>Inl e\<close> of a result type \<open>error + 'a\<close>.
  \<^item> The module-level variable \<^verbatim>\<open>subscribedComponents\<close>, the stored value, the React state
    of every mounted component and the collaborators (feature list, environment, event
    logger) are the fields of one record, passed explicitly.
\<close>

subsection \<open>JavaScript values\<close>

text \<open>
  What \<^verbatim>\<open>JSON.parse\<close> can return, together with \<^verbatim>\<open>undefined\<close>. Of a number only the
  test against zero is ever observed here, so numbers are integers.
\<close>

datatype js =
    Undefined
  | Null
  | Bool bool
  | Num int
  | Str string
  | Arr "js list"
  | Obj "(string \<times> js) list"

datatype error =
    TypeError
  | Error string
  | LoggerError string

text \<open>The truth value of a value in a condition (\<^verbatim>\<open>ToBoolean\<close>).\<close>

fun truthy :: "js \<Rightarrow> bool" where
  "truthy Undefined = False"
| "truthy Null = False"
| "truthy (Bool b) = b"
| "truthy (Num n) = (n \<noteq> 0)"
| "truthy (Str s) = (s \<noteq> [])"
| "truthy (Arr xs) = True"
| "truthy (Obj kvs) = True"

text \<open>Whether a value is an object: an array is one, \<^verbatim>\<open>null\<close> and a string are not.\<close>

fun isObject :: "js \<Rightarrow> bool" where
  "isObject (Arr xs) = True"
| "isObject (Obj kvs) = True"
| "isObject v = False"

text \<open>\<^verbatim>\<open>a || b\<close>\<close>

definition orElse :: "js \<Rightarrow> js \<Rightarrow> js" where
  "orElse a b = (if truthy a then a else b)"

text \<open>The decimal name of an array index, as a property key.\<close>

definition digitChar :: "nat \<Rightarrow> char" where
  "digitChar d = ''0123456789'' ! d"

function showNat :: "nat \<Rightarrow> string" where
  "showNat n = (if n < 10 then [digitChar n] else showNat (n div 10) @ [digitChar (n mod 10)])"
  by pat_completeness auto
termination
  by (relation "measure (\<lambda>n. n)") auto

declare showNat.simps [simp del]

text \<open>
  The own enumerable properties of a value, which is what the spread \<^verbatim>\<open>{ ...v }\<close>
  copies: nothing for \<^verbatim>\<open>undefined\<close>, \<^verbatim>\<open>null\<close>, a boolean or a number, the characters of
  a string and the elements of an array under their indices, the entries of an object.
\<close>

fun spread :: "js \<Rightarrow> (string \<times> js) list" where
  "spread (Str s) = zip (map showNat [0..<length s]) (map (\<lambda>c. Str [c]) s)"
| "spread (Arr xs) = zip (map showNat [0..<length xs]) xs"
| "spread (Obj kvs) = kvs"
| "spread v = []"

text \<open>
  The property read \<^verbatim>\<open>v[id]\<close>. It throws on \<^verbatim>\<open>undefined\<close> and \<^verbatim>\<open>null\<close>; a string and an
  array have the property \<^verbatim>\<open>length\<close> besides their indices.
\<close>

fun getProp :: "js \<Rightarrow> string \<Rightarrow> error + js" where
  "getProp Undefined id' = Inl TypeError"
| "getProp Null id' = Inl TypeError"
| "getProp (Bool b) id' = Inr Undefined"
| "getProp (Num n) id' = Inr Undefined"
| "getProp (Str s) id' =
     (case map_of (spread (Str s)) id' of
        Some v \<Rightarrow> Inr v
      | None \<Rightarrow> if id' = ''length'' then Inr (Num (int (length s))) else Inr Undefined)"
| "getProp (Arr xs) id' =
     (case map_of (spread (Arr xs)) id' of
        Some v \<Rightarrow> Inr v
      | None \<Rightarrow> if id' = ''length'' then Inr (Num (int (length xs))) else Inr Undefined)"
| "getProp (Obj kvs) id' =
     (case map_of kvs id' of Some v \<Rightarrow> Inr v | None \<Rightarrow> Inr Undefined)"

text \<open>\<^verbatim>\<open>xs.includes(v)\<close> for a list of strings \<open>xs\<close>: only an equal string is found.\<close>

definition Array_includes :: "js list \<Rightarrow> js \<Rightarrow> bool" where
  "Array_includes xs v = (v \<in> set xs)"

subsection \<open>Data of the module\<close>

record FeatureDescription =
  name :: string
  description :: string
  developmentDefault :: bool
  productionDefault :: bool

type_synonym FeatureDescriptions = "(string \<times> FeatureDescription) list"

record FeatureSetting =
  enabled :: bool
  manuallySet :: bool

text \<open>
  The object \<^verbatim>\<open>settings\<close> that resolution builds from \<^verbatim>\<open>{}\<close> by assignments
  \<^verbatim>\<open>settings[id] = {enabled, manuallySet}\<close>. The map holds its own properties and, under
  the key \<^verbatim>\<open>__proto__\<close>, the object that an assignment to that key has made its prototype:
  such an assignment reaches the setter of \<^verbatim>\<open>Object.prototype\<close>, and a read of the key
  returns the prototype.
\<close>

type_synonym FeatureSettings = "string \<rightharpoonup> FeatureSetting"

text \<open>
  What a run leaves behind, in order: a call of the event logger that returned (with
  its tags \<open>feature\<close> and \<open>value\<close>), a \<^verbatim>\<open>Storage.set\<close> with the value written, and a call
  of the \<^verbatim>\<open>update\<close> callback of a component with the value that its read of the store
  returned.
\<close>

datatype event =
    Logged string string
  | StorageSet js
  | Updated nat js

text \<open>
  \<open>featuresList\<close> is what \<^verbatim>\<open>getGlobalHooks().experimentalFeaturesList()\<close> returns,
  \<open>production\<close> is \<^verbatim>\<open>process.env.NODE_ENV === "production"\<close>, \<open>eventLogger\<close> tells for the
  tags \<open>feature\<close> and \<open>value\<close> whether the call of the logger returns (\<open>None\<close>) or throws.
  \<open>storedValue\<close> is the deserialised value under the key
  \<^verbatim>\<open>experimentalFeaturesSettings\<close>, \<open>Undefined\<close> when there is none. A mounted component is
  a number; \<open>subscribedComponents\<close> lists the components whose \<^verbatim>\<open>update\<close> closure is
  registered and \<open>componentSettings\<close> holds the \<^verbatim>\<open>settings\<close> state of each.
\<close>

record world =
  featuresList :: FeatureDescriptions
  production :: bool
  eventLogger :: "string \<Rightarrow> string \<Rightarrow> error option"
  storedValue :: js
  subscribedComponents :: "nat list"
  componentSettings :: "nat \<rightharpoonup> FeatureSettings"
  trace :: "event list"

subsection \<open>The store\<close>

text \<open>
  Modelled from the spec: the class \<^verbatim>\<open>Storage\<close> of \<^verbatim>\<open>webviz-core/src/util/Storage\<close> is not
  among the sources. The spec has a store that holds one serialised JSON-compatible
  value under one key; reading deserialises it and never fails its caller, writing
  serialises and replaces the whole value. The source tells what a read returns when
  nothing is stored: a value that \<^verbatim>\<open>|| {}\<close> replaces and that a spread copies nothing of.
\<close>

definition Storage_get :: "world \<Rightarrow> js" where
  "Storage_get w = storedValue w"

definition Storage_set :: "js \<Rightarrow> world \<Rightarrow> world" where
  "Storage_set v w = w\<lparr>storedValue := v, trace := trace w @ [StorageSet v]\<rparr>"

subsection \<open>Resolution\<close>

definition getExperimentalFeaturesList :: "world \<Rightarrow> FeatureDescriptions" where
  "getExperimentalFeaturesList w = featuresList w"

definition getDefaultKey :: "world \<Rightarrow> FeatureDescription \<Rightarrow> bool" where
  "getDefaultKey w = (if production w then productionDefault else developmentDefault)"

text \<open>
  The loop \<^verbatim>\<open>for (const id in experimentalFeaturesList)\<close> of
  \<^verbatim>\<open>getExperimentalFeatureSettings\<close>, over the keys still to visit.
\<close>

fun forIn ::
  "FeatureDescriptions \<Rightarrow> (FeatureDescription \<Rightarrow> bool) \<Rightarrow> js \<Rightarrow> string list \<Rightarrow>
   FeatureSettings \<Rightarrow> error + FeatureSettings" where
  "forIn experimentalFeaturesList defaultKey featureStorage [] settings = Inr settings"
| "forIn experimentalFeaturesList defaultKey featureStorage (id' # ids) settings =
     (case getProp featureStorage id' of
        Inl e \<Rightarrow> Inl e
      | Inr v \<Rightarrow>
          if Array_includes [Str ''alwaysOn'', Str ''alwaysOff''] v
          then forIn experimentalFeaturesList defaultKey featureStorage ids
                 (settings(id' \<mapsto> \<lparr>enabled = (v = Str ''alwaysOn''), manuallySet = True\<rparr>))
          else (case map_of experimentalFeaturesList id' of
                  None \<Rightarrow> Inl TypeError
                | Some feature \<Rightarrow>
                    forIn experimentalFeaturesList defaultKey featureStorage ids
                      (settings(id' \<mapsto> \<lparr>enabled = defaultKey feature, manuallySet = False\<rparr>))))"

definition getExperimentalFeatureSettings :: "world \<Rightarrow> error + FeatureSettings" where
  "getExperimentalFeatureSettings w =
     (let experimentalFeaturesList = getExperimentalFeaturesList w;
          featureStorage = orElse (Storage_get w) (Obj [])
      in forIn experimentalFeaturesList (getDefaultKey w) featureStorage
           (map fst experimentalFeaturesList) Map.empty)"

subsection \<open>Reading a flag\<close>

text \<open>
  \<^verbatim>\<open>useAllExperimentalFeatures\<close> in a component \<open>c\<close>. At the first render the state is
  initialised from a resolution and the effect registers the \<^verbatim>\<open>update\<close> closure of the
  component; a later render returns the state.
\<close>

definition useAllExperimentalFeatures :: "nat \<Rightarrow> world \<Rightarrow> (error + FeatureSettings) \<times> world" where
  "useAllExperimentalFeatures c w =
     (case componentSettings w c of
        Some settings \<Rightarrow> (Inr settings, w)
      | None \<Rightarrow>
          (case getExperimentalFeatureSettings w of
             Inl e \<Rightarrow> (Inl e, w)
           | Inr settings \<Rightarrow>
               (Inr settings,
                w\<lparr>componentSettings := (componentSettings w)(c \<mapsto> settings),
                  subscribedComponents := subscribedComponents w @ [c]\<rparr>)))"

text \<open>
  What the read \<^verbatim>\<open>settings[id]\<close> can find: one of the objects that resolution has put
  there, a function or an object that the runtime provides (known by the key under which
  it is found), or a primitive value.
\<close>

datatype property =
    Setting FeatureSetting
  | Builtin string
  | Prim js

text \<open>
  The members that every plain object inherits from \<^verbatim>\<open>Object.prototype\<close>, all of them
  functions, apart from the accessor \<^verbatim>\<open>__proto__\<close>.
\<close>

definition objectPrototypeMembers :: "string list" where
  "objectPrototypeMembers =
     [''constructor'', ''hasOwnProperty'', ''isPrototypeOf'', ''propertyIsEnumerable'',
      ''toLocaleString'', ''toString'', ''valueOf'', ''__defineGetter__'',
      ''__defineSetter__'', ''__lookupGetter__'', ''__lookupSetter__'']"

definition objectPrototype :: "string \<Rightarrow> property" where
  "objectPrototype id' =
     (if id' \<in> set objectPrototypeMembers then Builtin id' else Prim Undefined)"

text \<open>
  The read \<^verbatim>\<open>settings[id]\<close>. An own property is found first. The key \<^verbatim>\<open>__proto__\<close> gives the
  prototype, which is \<^verbatim>\<open>Object.prototype\<close> unless an assignment has replaced it. Any other
  key is looked up along the prototype chain: in the object that has become the prototype,
  whose properties are \<^verbatim>\<open>enabled\<close> and \<^verbatim>\<open>manuallySet\<close>, and then in \<^verbatim>\<open>Object.prototype\<close>.
\<close>

definition settingsProp :: "FeatureSettings \<Rightarrow> string \<Rightarrow> property" where
  "settingsProp settings id' =
     (case settings id' of
        Some s \<Rightarrow> Setting s
      | None \<Rightarrow>
          if id' = ''__proto__'' then Builtin ''__proto__''
          else (case settings ''__proto__'' of
                  None \<Rightarrow> objectPrototype id'
                | Some p \<Rightarrow>
                    if id' = ''enabled'' then Prim (Bool (enabled p))
                    else if id' = ''manuallySet'' then Prim (Bool (manuallySet p))
                    else objectPrototype id'))"

text \<open>The truth value of what was found, for the test \<^verbatim>\<open>!settings[id]\<close>.\<close>

fun isTruthy :: "property \<Rightarrow> bool" where
  "isTruthy (Setting s) = True"
| "isTruthy (Builtin n) = True"
| "isTruthy (Prim v) = truthy v"

text \<open>
  The read \<^verbatim>\<open>settings[id].enabled\<close>: the field of a setting, \<^verbatim>\<open>undefined\<close> for a function or
  an object of the runtime, which has no such property, and a property read for a
  primitive value.
\<close>

fun getEnabled :: "property \<Rightarrow> error + js" where
  "getEnabled (Setting s) = Inr (Bool (enabled s))"
| "getEnabled (Builtin n) = Inr Undefined"
| "getEnabled (Prim v) = getProp v ''enabled''"

text \<open>The cleanup of the effect, when the component \<open>c\<close> goes away.\<close>

definition unmount :: "nat \<Rightarrow> world \<Rightarrow> world" where
  "unmount c w =
     w\<lparr>subscribedComponents := filter (\<lambda>fn. fn \<noteq> c) (subscribedComponents w),
       componentSettings := (componentSettings w)(c := None)\<rparr>"

text \<open>
  Both reads end with \<^verbatim>\<open>if (!settings[id]) return false; return settings[id].enabled\<close>.
  What they return is a JavaScript value: the annotation says a boolean, the code can
  return \<^verbatim>\<open>undefined\<close>.
\<close>

definition useExperimentalFeature :: "string \<Rightarrow> nat \<Rightarrow> world \<Rightarrow> (error + js) \<times> world" where
  "useExperimentalFeature id' c w =
     (case useAllExperimentalFeatures c w of
        (Inl e, w') \<Rightarrow> (Inl e, w')
      | (Inr settings, w') \<Rightarrow>
          if \<not> isTruthy (settingsProp settings id') then (Inr (Bool False), w')
          else (getEnabled (settingsProp settings id'), w'))"

definition getExperimentalFeature :: "string \<Rightarrow> world \<Rightarrow> error + js" where
  "getExperimentalFeature id' w =
     (case getExperimentalFeatureSettings w of
        Inl e \<Rightarrow> Inl e
      | Inr settings \<Rightarrow>
          if \<not> isTruthy (settingsProp settings id') then Inr (Bool False)
          else getEnabled (settingsProp settings id'))"

subsection \<open>Writing an override\<close>

text \<open>The \<^verbatim>\<open>update\<close> closure of component \<open>c\<close>: \<^verbatim>\<open>setSettings(getExperimentalFeatureSettings())\<close>.\<close>

definition update :: "nat \<Rightarrow> world \<Rightarrow> (error + unit) \<times> world" where
  "update c w =
     (let w1 = w\<lparr>trace := trace w @ [Updated c (Storage_get w)]\<rparr>
      in case getExperimentalFeatureSettings w1 of
           Inl e \<Rightarrow> (Inl e, w1)
         | Inr settings \<Rightarrow>
             (Inr (), w1\<lparr>componentSettings := (componentSettings w1)(c \<mapsto> settings)\<rparr>))"

text \<open>The loop \<^verbatim>\<open>for (const update of subscribedComponents) update()\<close>.\<close>

fun forOf :: "nat list \<Rightarrow> world \<Rightarrow> (error + unit) \<times> world" where
  "forOf [] w = (Inr (), w)"
| "forOf (c # cs) w =
     (case update c w of
        (Inl e, w') \<Rightarrow> (Inl e, w')
      | (Inr u, w') \<Rightarrow> forOf cs w')"

text \<open>
  The assignment \<^verbatim>\<open>newSettings[id] = value\<close> of a string to a key of a plain object: an own
  property is overwritten and a new key is added, except for the key \<^verbatim>\<open>__proto__\<close>. When
  the object has no own property of that name, the assignment reaches the setter that
  the object inherits from \<^verbatim>\<open>Object.prototype\<close>, and the setter ignores a value that is not
  an object.
\<close>

definition assignString :: "(string \<times> js) list \<Rightarrow> string \<Rightarrow> string \<Rightarrow> (string \<times> js) list" where
  "assignString newSettings id' val =
     (if id' = ''__proto__'' \<and> map_of newSettings id' = None then newSettings
      else AList.update id' (Str val) newSettings)"

definition setExperimentalFeature :: "string \<Rightarrow> string \<Rightarrow> world \<Rightarrow> (error + unit) \<times> world" where
  "setExperimentalFeature id' val w =
     (let newSettings = spread (Storage_get w)
      in case eventLogger w id' val of
           Some e \<Rightarrow> (Inl e, w)
         | None \<Rightarrow>
             (let w1 = w\<lparr>trace := trace w @ [Logged id' val]\<rparr>;
                  newSettings' =
                    (if val = ''default'' then AList.delete id' newSettings
                     else assignString newSettings id' val);
                  w2 = Storage_set (Obj newSettings') w1
              in forOf (subscribedComponents w2) w2))"

text \<open>The \<^verbatim>\<open>onChange\<close> handler that the modal gives to the radio buttons of feature \<open>id\<close>.\<close>

definition onChange :: "string \<Rightarrow> string \<Rightarrow> world \<Rightarrow> (error + unit) \<times> world" where
  "onChange id' val w =
     (if val \<noteq> ''default'' \<and> val \<noteq> ''alwaysOn'' \<and> val \<noteq> ''alwaysOff''
      then (Inl (Error (''Invalid value for radio button: '' @ val)), w)
      else setExperimentalFeature id' val w)"

subsection \<open>Runs of the module\<close>

text \<open>The components whose \<^verbatim>\<open>update\<close> callback a trace shows as called, in the order of the calls.\<close>

fun updatedComponents :: "event list \<Rightarrow> nat list" where
  "updatedComponents [] = []"
| "updatedComponents (Updated c v # es) = c # updatedComponents es"
| "updatedComponents (e # es) = updatedComponents es"

text \<open>
  The worlds that the module can be in: at the start no component is mounted and nothing
  is subscribed, whatever is stored; then components render, go away, overrides are
  written, and the stored value is changed from outside the module.
\<close>

inductive reachable :: "world \<Rightarrow> bool" where
  start: "subscribedComponents w = [] \<Longrightarrow> componentSettings w = Map.empty \<Longrightarrow> reachable w"
| render: "reachable w \<Longrightarrow> reachable (snd (useAllExperimentalFeatures c w))"
| cleanup: "reachable w \<Longrightarrow> reachable (unmount c w)"
| override: "reachable w \<Longrightarrow> reachable (snd (setExperimentalFeature id' val w))"
| outside: "reachable w \<Longrightarrow> reachable (w\<lparr>storedValue := v\<rparr>)"

subsection \<open>An example\<close>

text \<open>
  The example of the specification: one feature \<^verbatim>\<open>featureA\<close>, on by default in
  development and off in production, in production mode, before any component is
  mounted. The behaviour of the logger and the stored value are left open; \<open>returns\<close> is
  a logger that always returns and \<open>throws\<close> one that always throws.
\<close>

definition featureA :: FeatureDescription where
  "featureA =
     \<lparr>name = ''Feature A'', description = ''An example feature'',
      developmentDefault = True, productionDefault = False\<rparr>"

definition exampleWorld :: "(string \<Rightarrow> string \<Rightarrow> error option) \<Rightarrow> js \<Rightarrow> world" where
  "exampleWorld logger v =
     \<lparr>featuresList = [(''featureA'', featureA)], production = True, eventLogger = logger,
      storedValue = v, subscribedComponents = [], componentSettings = Map.empty, trace = []\<rparr>"

definition returns :: "string \<Rightarrow> string \<Rightarrow> error option" where
  "returns feature val = None"

definition throws :: "string \<Rightarrow> string \<Rightarrow> error option" where
  "throws feature val = Some (LoggerError ''logger unavailable'')"

section \<open>Properties\<close>

subsection \<open>Resolution never fails and has a closed form\<close>

lemma truthy_orElse_Obj: "truthy (orElse v (Obj []))"
  by (simp add: orElse_def)

lemma getProp_truthy: "truthy fs \<Longrightarrow> \<exists>v. getProp fs i = Inr v"
  by (cases fs) (auto split: option.splits)

lemma map_of_key: "a \<in> fst ` set list \<Longrightarrow> \<exists>d. map_of list a = Some d"
  by (metis map_of_eq_None_iff not_None_eq)

lemma forIn_result:
  assumes "truthy fs" and "set ids \<subseteq> fst ` set list"
  shows "forIn list key fs ids acc = Inr (\<lambda>i.
        if i \<in> set ids
        then (case getProp fs i of
                 Inl e \<Rightarrow> None
               | Inr v \<Rightarrow>
                   if v = Str ''alwaysOn'' \<or> v = Str ''alwaysOff''
                   then Some \<lparr>enabled = (v = Str ''alwaysOn''), manuallySet = True\<rparr>
                   else map_option (\<lambda>d. \<lparr>enabled = key d, manuallySet = False\<rparr>) (map_of list i))
         else acc i)"
  using assms
proof (induction ids arbitrary: acc)
  case Nil
  then show ?case by simp
next
  case (Cons a ids)
  obtain v where v: "getProp fs a = Inr v"
    using getProp_truthy [OF Cons.prems(1)] by blast
  obtain d where d: "map_of list a = Some d"
    using Cons.prems(2) map_of_key [of a list] by auto
  have sub: "set ids \<subseteq> fst ` set list" using Cons.prems(2) by simp
  show ?case
    by (auto simp add: Cons.IH [OF Cons.prems(1) sub] v d Array_includes_def fun_eq_iff)
qed

lemma getExperimentalFeatureSettings_result:
  "getExperimentalFeatureSettings w = Inr (\<lambda>i.
        if i \<in> fst ` set (featuresList w)
        then (case getProp (orElse (storedValue w) (Obj [])) i of
                 Inl e \<Rightarrow> None
               | Inr v \<Rightarrow>
                   if v = Str ''alwaysOn'' \<or> v = Str ''alwaysOff''
                   then Some \<lparr>enabled = (v = Str ''alwaysOn''), manuallySet = True\<rparr>
                   else map_option (\<lambda>d. \<lparr>enabled = getDefaultKey w d, manuallySet = False\<rparr>)
                          (map_of (featuresList w) i))
         else None)"
  unfolding getExperimentalFeatureSettings_def Let_def getExperimentalFeaturesList_def Storage_get_def
  by (subst forIn_result [OF truthy_orElse_Obj]) auto

subsection \<open>The assignment to a key of the new map\<close>

lemma assignString_other:
  "k \<noteq> i \<Longrightarrow> map_of (assignString kvs i v) k = map_of kvs k"
  by (simp add: assignString_def update_conv')

lemma assignString_same:
  "i \<noteq> ''__proto__'' \<Longrightarrow> map_of (assignString kvs i v) i = Some (Str v)"
  by (simp add: assignString_def update_conv')


lemma delete_assignString:
  "map_of (AList.delete i (assignString kvs i v)) i = None"
  by (simp add: delete_conv')

subsection \<open>The effect of a notification and of a write\<close>

lemma getExperimentalFeatureSettings_cong:
  "featuresList w' = featuresList w \<Longrightarrow> production w' = production w \<Longrightarrow>
   storedValue w' = storedValue w \<Longrightarrow>
   getExperimentalFeatureSettings w' = getExperimentalFeatureSettings w"
  by (simp add: getExperimentalFeatureSettings_def getExperimentalFeaturesList_def
      Storage_get_def getDefaultKey_def)

lemma getExperimentalFeatureSettings_total:
  "\<exists>settings. getExperimentalFeatureSettings w = Inr settings"
  by (simp add: getExperimentalFeatureSettings_result)

lemma update_result:
  assumes "getExperimentalFeatureSettings w = Inr s"
  shows "update c w =
    (Inr (), w\<lparr>trace := trace w @ [Updated c (storedValue w)],
               componentSettings := (componentSettings w)(c \<mapsto> s)\<rparr>)"
proof -
  have "getExperimentalFeatureSettings (w\<lparr>trace := trace w @ [Updated c (storedValue w)]\<rparr>) = Inr s"
    using assms getExperimentalFeatureSettings_cong [of "w\<lparr>trace := trace w @ [Updated c (storedValue w)]\<rparr>" w]
    by simp
  then show ?thesis
    by (simp add: update_def Let_def Storage_get_def)
qed

lemma forOf_result:
  assumes "getExperimentalFeatureSettings w = Inr s"
  shows "forOf cs w =
    (Inr (), w\<lparr>trace := trace w @ map (\<lambda>c. Updated c (storedValue w)) cs,
               componentSettings := (\<lambda>c. if c \<in> set cs then Some s else componentSettings w c)\<rparr>)"
  using assms
proof (induction cs arbitrary: w)
  case Nil
  then show ?case by simp
next
  case (Cons c cs)
  let ?w' = "w\<lparr>trace := trace w @ [Updated c (storedValue w)],
               componentSettings := (componentSettings w)(c \<mapsto> s)\<rparr>"
  have s': "getExperimentalFeatureSettings ?w' = Inr s"
    using Cons.prems getExperimentalFeatureSettings_cong [of ?w' w] by simp
  have "forOf (c # cs) w = forOf cs ?w'"
    by (simp add: update_result [OF Cons.prems])
  also have "\<dots> = (Inr (), ?w'\<lparr>trace := trace ?w' @ map (\<lambda>c. Updated c (storedValue ?w')) cs,
               componentSettings := (\<lambda>c. if c \<in> set cs then Some s else componentSettings ?w' c)\<rparr>)"
    by (rule Cons.IH [OF s'])
  also have "\<dots> = (Inr (), w\<lparr>trace := trace w @ map (\<lambda>c. Updated c (storedValue w)) (c # cs),
               componentSettings := (\<lambda>x. if x \<in> set (c # cs) then Some s else componentSettings w x)\<rparr>)"
    by (simp, rule world.equality) (simp_all add: fun_eq_iff)
  finally show ?case .
qed

lemma setExperimentalFeature_result:
  assumes "eventLogger w i val = None"
    and "new = Obj (if val = ''default'' then AList.delete i (spread (storedValue w))
                    else assignString (spread (storedValue w)) i val)"
    and "getExperimentalFeatureSettings (w\<lparr>storedValue := new\<rparr>) = Inr s"
  shows "setExperimentalFeature i val w =
    (Inr (), w\<lparr>storedValue := new,
               trace := trace w @ [Logged i val, StorageSet new]
                        @ map (\<lambda>c. Updated c new) (subscribedComponents w),
               componentSettings :=
                 (\<lambda>c. if c \<in> set (subscribedComponents w) then Some s else componentSettings w c)\<rparr>)"
proof -
  let ?w2 = "w\<lparr>storedValue := new, trace := trace w @ [Logged i val, StorageSet new]\<rparr>"
  have s2: "getExperimentalFeatureSettings ?w2 = Inr s"
    using assms(3) getExperimentalFeatureSettings_cong [of ?w2 "w\<lparr>storedValue := new\<rparr>"] by simp
  have "setExperimentalFeature i val w = forOf (subscribedComponents ?w2) ?w2"
    using assms(1,2) by (simp add: setExperimentalFeature_def Let_def Storage_set_def Storage_get_def)
  also have "\<dots> = (Inr (), ?w2\<lparr>trace := trace ?w2 @ map (\<lambda>c. Updated c (storedValue ?w2)) (subscribedComponents ?w2),
               componentSettings := (\<lambda>c. if c \<in> set (subscribedComponents ?w2) then Some s else componentSettings ?w2 c)\<rparr>)"
    by (rule forOf_result [OF s2])
  also have "\<dots> = (Inr (), w\<lparr>storedValue := new,
               trace := trace w @ [Logged i val, StorageSet new]
                        @ map (\<lambda>c. Updated c new) (subscribedComponents w),
               componentSettings :=
                 (\<lambda>c. if c \<in> set (subscribedComponents w) then Some s else componentSettings w c)\<rparr>)"
    by (simp, rule world.equality) (simp_all add: fun_eq_iff)
  finally show ?thesis .
qed

subsection \<open>Values that are not objects, and the invariant of the runs\<close>

lemma getProp_primitive:
  assumes "\<not> isObject v" and "getProp v i = Inr x"
  shows "x \<noteq> Str ''alwaysOn'' \<and> x \<noteq> Str ''alwaysOff''"
proof (cases v)
  case (Str s)
  show ?thesis
  proof (cases "map_of (spread (Str s)) i")
    case None
    have "getProp v i = (if i = ''length'' then Inr (Num (int (length s))) else Inr Undefined)"
      unfolding Str getProp.simps None by simp
    with assms(2) show ?thesis by (auto split: if_splits)
  next
    case (Some y)
    then have "y \<in> set (map (\<lambda>c. Str [c]) s)"
      by (auto dest!: map_of_SomeD set_zip_rightD)
    moreover have "getProp v i = Inr y"
      unfolding Str getProp.simps Some by simp
    ultimately show ?thesis using assms(2) by auto
  qed
qed (use assms in auto)

lemma getProp_orElse_primitive:
  assumes "\<not> isObject v" and "getProp (orElse v (Obj [])) i = Inr x"
  shows "x \<noteq> Str ''alwaysOn'' \<and> x \<noteq> Str ''alwaysOff''"
proof (cases "truthy v")
  case True
  with assms show ?thesis by (simp add: orElse_def getProp_primitive)
next
  case False
  with assms(2) show ?thesis by (auto simp add: orElse_def)
qed

lemma orElse_object: "isObject v \<Longrightarrow> orElse v (Obj []) = v"
  by (cases v) (simp_all add: orElse_def)

lemma settings_at:
  assumes "map_of (featuresList w) i = Some d"
  shows "\<exists>s v. getExperimentalFeatureSettings w = Inr s \<and>
           getProp (orElse (storedValue w) (Obj [])) i = Inr v \<and>
           s i = Some (if v = Str ''alwaysOn'' \<or> v = Str ''alwaysOff''
                       then \<lparr>enabled = (v = Str ''alwaysOn''), manuallySet = True\<rparr>
                       else \<lparr>enabled = getDefaultKey w d, manuallySet = False\<rparr>)"
proof -
  obtain v where v: "getProp (orElse (storedValue w) (Obj [])) i = Inr v"
    using getProp_truthy [OF truthy_orElse_Obj] by blast
  have "i \<in> fst ` set (featuresList w)"
    using assms by (metis map_of_eq_None_iff option.distinct(1))
  then show ?thesis
    using v assms by (simp add: getExperimentalFeatureSettings_result)
qed

lemma settings_dom:
  assumes "getExperimentalFeatureSettings w = Inr s"
  shows "dom s = fst ` set (featuresList w)"
proof (rule set_eqI)
  fix i
  show "i \<in> dom s \<longleftrightarrow> i \<in> fst ` set (featuresList w)"
  proof (cases "i \<in> fst ` set (featuresList w)")
    case True
    then obtain d where "map_of (featuresList w) i = Some d"
      using map_of_key by fastforce
    from settings_at [OF this] assms True show ?thesis by auto
  next
    case False
    with assms show ?thesis
      by (auto simp add: getExperimentalFeatureSettings_result)
  qed
qed

lemma reachable_invariant:
  assumes "reachable w"
  shows "distinct (subscribedComponents w) \<and>
         set (subscribedComponents w) = dom (componentSettings w) \<and>
         (\<forall>c s. componentSettings w c = Some s \<longrightarrow> dom s = fst ` set (featuresList w))"
  using assms
proof (induction rule: reachable.induct)
  case (start w)
  then show ?case by simp
next
  case (render w c)
  show ?case
  proof (cases "componentSettings w c")
    case None
    obtain s where s: "getExperimentalFeatureSettings w = Inr s"
      using getExperimentalFeatureSettings_total by blast
    have "c \<notin> set (subscribedComponents w)"
      using render.IH None by auto
    then show ?thesis
      using render.IH None s settings_dom [OF s]
      by (auto simp add: useAllExperimentalFeatures_def)
  next
    case (Some s)
    then show ?thesis
      using render.IH by (simp add: useAllExperimentalFeatures_def)
  qed
next
  case (cleanup w c)
  then show ?case by (auto simp add: unmount_def split: if_splits)
next
  case (override w i val)
  show ?case
  proof (cases "eventLogger w i val")
    case None
    define new where "new = Obj (if val = ''default'' then AList.delete i (spread (storedValue w))
                    else assignString (spread (storedValue w)) i val)"
    obtain s where s: "getExperimentalFeatureSettings (w\<lparr>storedValue := new\<rparr>) = Inr s"
      using getExperimentalFeatureSettings_total by blast
    have d: "dom s = fst ` set (featuresList w)"
      using settings_dom [OF s] by simp
    show ?thesis
      using override.IH d
      by (auto simp add: setExperimentalFeature_result [OF None new_def s] split: if_splits)
  next
    case (Some e)
    then show ?thesis
      using override.IH by (simp add: setExperimentalFeature_def)
  qed
next
  case (outside w v)
  then show ?case by simp
qed

subsection \<open>Unfolding the definitions on concrete inputs\<close>

lemmas example_defs =
  exampleWorld_def featureA_def returns_def throws_def

lemmas run_defs =
  setExperimentalFeature_def onChange_def update_def useAllExperimentalFeatures_def
  useExperimentalFeature_def getExperimentalFeature_def getExperimentalFeatureSettings_def
  getExperimentalFeaturesList_def getDefaultKey_def Storage_get_def Storage_set_def
  unmount_def orElse_def Array_includes_def Let_def settingsProp_def objectPrototype_def
  objectPrototypeMembers_def assignString_def

subsection \<open>A write that returns\<close>

lemma setExperimentalFeature_returns:
  assumes "eventLogger w i val = None"
  shows "fst (setExperimentalFeature i val w) = Inr ()"
    and "storedValue (snd (setExperimentalFeature i val w)) =
           Obj (if val = ''default'' then AList.delete i (spread (storedValue w))
                else assignString (spread (storedValue w)) i val)"
    and "featuresList (snd (setExperimentalFeature i val w)) = featuresList w"
    and "production (snd (setExperimentalFeature i val w)) = production w"
    and "eventLogger (snd (setExperimentalFeature i val w)) = eventLogger w"
    and "subscribedComponents (snd (setExperimentalFeature i val w)) = subscribedComponents w"
    and "trace (snd (setExperimentalFeature i val w)) =
           trace w @ [Logged i val, StorageSet (storedValue (snd (setExperimentalFeature i val w)))]
           @ map (\<lambda>c. Updated c (storedValue (snd (setExperimentalFeature i val w))))
               (subscribedComponents w)"
    and "\<exists>s. getExperimentalFeatureSettings (snd (setExperimentalFeature i val w)) = Inr s \<and>
           componentSettings (snd (setExperimentalFeature i val w)) =
             (\<lambda>c. if c \<in> set (subscribedComponents w) then Some s else componentSettings w c)"
proof -
  define new where "new = Obj (if val = ''default'' then AList.delete i (spread (storedValue w))
                    else assignString (spread (storedValue w)) i val)"
  obtain s where s: "getExperimentalFeatureSettings (w\<lparr>storedValue := new\<rparr>) = Inr s"
    using getExperimentalFeatureSettings_total by blast
  note r = setExperimentalFeature_result [OF assms new_def s]
  show "fst (setExperimentalFeature i val w) = Inr ()"
    and "storedValue (snd (setExperimentalFeature i val w)) =
           Obj (if val = ''default'' then AList.delete i (spread (storedValue w))
                else assignString (spread (storedValue w)) i val)"
    and "featuresList (snd (setExperimentalFeature i val w)) = featuresList w"
    and "production (snd (setExperimentalFeature i val w)) = production w"
    and "eventLogger (snd (setExperimentalFeature i val w)) = eventLogger w"
    and "subscribedComponents (snd (setExperimentalFeature i val w)) = subscribedComponents w"
    and "trace (snd (setExperimentalFeature i val w)) =
           trace w @ [Logged i val, StorageSet (storedValue (snd (setExperimentalFeature i val w)))]
           @ map (\<lambda>c. Updated c (storedValue (snd (setExperimentalFeature i val w))))
               (subscribedComponents w)"
    by (simp_all add: r new_def)
  have "getExperimentalFeatureSettings (snd (setExperimentalFeature i val w)) =
        getExperimentalFeatureSettings (w\<lparr>storedValue := new\<rparr>)"
    by (rule getExperimentalFeatureSettings_cong) (simp_all add: r)
  then show "\<exists>s. getExperimentalFeatureSettings (snd (setExperimentalFeature i val w)) = Inr s \<and>
           componentSettings (snd (setExperimentalFeature i val w)) =
             (\<lambda>c. if c \<in> set (subscribedComponents w) then Some s else componentSettings w c)"
    using s by (simp add: r)
qed

lemma settings_at_object:
  assumes "map_of (featuresList w) i = Some d" and "storedValue w = Obj kvs"
  shows "\<exists>s. getExperimentalFeatureSettings w = Inr s \<and>
           s i = Some (case map_of kvs i of
                         None \<Rightarrow> \<lparr>enabled = getDefaultKey w d, manuallySet = False\<rparr>
                       | Some v \<Rightarrow>
                           if v = Str ''alwaysOn'' \<or> v = Str ''alwaysOff''
                           then \<lparr>enabled = (v = Str ''alwaysOn''), manuallySet = True\<rparr>
                           else \<lparr>enabled = getDefaultKey w d, manuallySet = False\<rparr>)"
  using settings_at [OF assms(1)] assms(2)
  by (auto simp add: orElse_def split: option.splits)


subsection \<open>Ids that the catalog does not have\<close>

lemma settingsProp_unknown:
  assumes "settings i = None" and "settings ''__proto__'' = None"
    and "i \<noteq> ''__proto__''" and "i \<notin> set objectPrototypeMembers"
  shows "settingsProp settings i = Prim Undefined"
  using assms by (simp add: settingsProp_def objectPrototype_def)

lemma unknown_id_gives_false:
  assumes "reachable w"
    and "i \<notin> fst ` set (featuresList w)"
    and "''__proto__'' \<notin> fst ` set (featuresList w)"
    and "i \<noteq> ''__proto__''"
    and "i \<notin> set objectPrototypeMembers"
  shows "getExperimentalFeature i w = Inr (Bool False)"
    and "fst (useExperimentalFeature i c w) = Inr (Bool False)"
proof -
  have none: "t i = None \<and> t ''__proto__'' = None"
    if "dom t = fst ` set (featuresList w)" for t :: FeatureSettings
    using that assms(2,3) by auto
  obtain s where s: "getExperimentalFeatureSettings w = Inr s"
    using getExperimentalFeatureSettings_total by blast
  have ps: "settingsProp s i = Prim Undefined"
    using none [OF settings_dom [OF s]] assms(4,5) by (simp add: settingsProp_unknown)
  show "getExperimentalFeature i w = Inr (Bool False)"
    by (simp add: getExperimentalFeature_def s ps)
  show "fst (useExperimentalFeature i c w) = Inr (Bool False)"
  proof (cases "componentSettings w c")
    case None
    then show ?thesis
      by (simp add: useExperimentalFeature_def useAllExperimentalFeatures_def s ps)
  next
    case (Some t)
    then have "dom t = fst ` set (featuresList w)"
      using reachable_invariant [OF assms(1)] by blast
    then have "settingsProp t i = Prim Undefined"
      using none assms(4,5) by (simp add: settingsProp_unknown)
    with Some show ?thesis
      by (simp add: useExperimentalFeature_def useAllExperimentalFeatures_def)
  qed
qed

subsection \<open>The key \<^verbatim>\<open>__proto__\<close>\<close>

text \<open>
  With a catalog whose one feature has the id \<^verbatim>\<open>__proto__\<close> and nothing stored, the write
  of an override for that id stores an empty map, and the feature stays at its default.
\<close>

lemma override_of_proto_is_not_stored:
  "storedValue (snd (setExperimentalFeature ''__proto__'' ''alwaysOn''
       ((exampleWorld returns Undefined)\<lparr>featuresList := [(''__proto__'', featureA)]\<rparr>)))
     = Obj [] \<and>
   getExperimentalFeature ''__proto__'' (snd (setExperimentalFeature ''__proto__'' ''alwaysOn''
       ((exampleWorld returns Undefined)\<lparr>featuresList := [(''__proto__'', featureA)]\<rparr>)))
     = Inr (Bool False)"
  by (simp add: run_defs example_defs)

section \<open>The claims\<close>

subsection \<open>C1: an override value outside the three admitted ones\<close>

text \<open>
  Claim C1 as stated does not hold of \<^verbatim>\<open>setExperimentalFeature\<close>: the function has no check
  of its second argument. In the example, with one component mounted and nothing stored,
  the value \<^verbatim>\<open>bogus\<close> is not rejected: the call returns, the value is stored under the id
  and the component is notified.
\<close>

theorem setExperimentalFeature_invalid_value_counterexample:
  "''bogus'' \<notin> {''default'', ''alwaysOn'', ''alwaysOff''} \<and>
   fst (setExperimentalFeature ''featureA'' ''bogus''
          (snd (useAllExperimentalFeatures 0 (exampleWorld returns Undefined)))) = Inr () \<and>
   storedValue (snd (useAllExperimentalFeatures 0 (exampleWorld returns Undefined))) = Undefined \<and>
   storedValue (snd (setExperimentalFeature ''featureA'' ''bogus''
          (snd (useAllExperimentalFeatures 0 (exampleWorld returns Undefined)))))
     = Obj [(''featureA'', Str ''bogus'')] \<and>
   updatedComponents (trace (snd (setExperimentalFeature ''featureA'' ''bogus''
          (snd (useAllExperimentalFeatures 0 (exampleWorld returns Undefined)))))) = [0]"
  by (simp add: run_defs example_defs)

text \<open>
  Claim C1, amended. The check is made by the caller of the write entry point, the
  \<^verbatim>\<open>onChange\<close> handler of the modal's radio buttons: for every value other than
  \<^verbatim>\<open>default\<close>, \<^verbatim>\<open>alwaysOn\<close> and \<^verbatim>\<open>alwaysOff\<close> the handler throws an \<^verbatim>\<open>Error\<close> before it calls
  \<^verbatim>\<open>setExperimentalFeature\<close>, and leaves everything as it was: the stored map is unchanged
  and no subscriber is notified.
\<close>

theorem onChange_rejects_invalid_value:
  assumes "val \<notin> {''default'', ''alwaysOn'', ''alwaysOff''}"
  shows "onChange id' val w = (Inl (Error (''Invalid value for radio button: '' @ val)), w)"
  using assms by (simp add: onChange_def)

text \<open>The amended claim C1 at the value \<^verbatim>\<open>bogus\<close>.\<close>

theorem onChange_rejects_invalid_value_witness:
  "''bogus'' \<notin> {''default'', ''alwaysOn'', ''alwaysOff''} \<and>
   onChange ''featureA'' ''bogus'' (exampleWorld returns Undefined)
     = (Inl (Error ''Invalid value for radio button: bogus''), exampleWorld returns Undefined)"
proof -
  have h: "''bogus'' \<notin> {''default'', ''alwaysOn'', ''alwaysOff''}" by simp
  show ?thesis
    using h onChange_rejects_invalid_value [OF h, of "''featureA''" "exampleWorld returns Undefined"]
    by simp
qed

subsection \<open>C2: a logger that throws\<close>

text \<open>
  Claim C2 as stated does not hold: the logger is called before the write and nothing
  catches what it throws. In the example with a logger that throws and one component
  mounted, the call with the valid value \<^verbatim>\<open>alwaysOn\<close> fails with the logger's exception,
  nothing is stored and the subscribed component is not notified.
\<close>

theorem setExperimentalFeature_logger_failure_counterexample:
  "fst (setExperimentalFeature ''featureA'' ''alwaysOn''
          (snd (useAllExperimentalFeatures 0 (exampleWorld throws Undefined))))
     = Inl (LoggerError ''logger unavailable'') \<and>
   storedValue (snd (setExperimentalFeature ''featureA'' ''alwaysOn''
          (snd (useAllExperimentalFeatures 0 (exampleWorld throws Undefined))))) = Undefined \<and>
   subscribedComponents (snd (useAllExperimentalFeatures 0 (exampleWorld throws Undefined))) = [0] \<and>
   trace (snd (setExperimentalFeature ''featureA'' ''alwaysOn''
          (snd (useAllExperimentalFeatures 0 (exampleWorld throws Undefined))))) = []"
  by (simp add: run_defs example_defs)

text \<open>
  Claim C2, amended. For every call of \<^verbatim>\<open>setExperimentalFeature\<close>, if the logger throws, then
  the call throws the same exception to its caller and has no effect: the stored map is
  not written and no subscriber is notified.
\<close>

theorem setExperimentalFeature_logger_failure:
  assumes "eventLogger w id' val = Some e"
  shows "setExperimentalFeature id' val w = (Inl e, w)"
  using assms by (simp add: setExperimentalFeature_def)

text \<open>The amended claim C2 in the example with the logger that throws.\<close>

theorem setExperimentalFeature_logger_failure_witness:
  "eventLogger (exampleWorld throws Undefined) ''featureA'' ''alwaysOn''
     = Some (LoggerError ''logger unavailable'') \<and>
   setExperimentalFeature ''featureA'' ''alwaysOn'' (exampleWorld throws Undefined)
     = (Inl (LoggerError ''logger unavailable''), exampleWorld throws Undefined)"
proof -
  have h: "eventLogger (exampleWorld throws Undefined) ''featureA'' ''alwaysOn''
     = Some (LoggerError ''logger unavailable'')"
    by (simp add: example_defs)
  show ?thesis
    using h setExperimentalFeature_logger_failure [OF h] by simp
qed

subsection \<open>C3: what resolution yields for an id of the catalog\<close>

text \<open>
  Claim C3. For every id of the catalog, resolution returns settings in which the id has:
  if the entry of the stored map under the id is \<^verbatim>\<open>alwaysOn\<close> or \<^verbatim>\<open>alwaysOff\<close>, then
  \<open>manuallySet = True\<close> and \<open>enabled\<close> tells whether the entry is \<^verbatim>\<open>alwaysOn\<close>, whatever the
  environment; otherwise (no entry, or any other value) \<open>manuallySet = False\<close> and \<open>enabled\<close>
  is the \<open>productionDefault\<close> of the feature in production and its \<open>developmentDefault\<close>
  otherwise. The entry is what the read \<^verbatim>\<open>featureStorage[id]\<close> returns.
\<close>

theorem getExperimentalFeatureSettings_resolves:
  assumes "map_of (getExperimentalFeaturesList w) id' = Some feature"
  shows "\<exists>settings entry.
           getExperimentalFeatureSettings w = Inr settings \<and>
           getProp (orElse (Storage_get w) (Obj [])) id' = Inr entry \<and>
           settings id' =
             Some (if entry = Str ''alwaysOn'' \<or> entry = Str ''alwaysOff''
                   then \<lparr>enabled = (entry = Str ''alwaysOn''), manuallySet = True\<rparr>
                   else \<lparr>enabled = (if production w then productionDefault feature
                                     else developmentDefault feature),
                         manuallySet = False\<rparr>)"
proof -
  have "map_of (featuresList w) id' = Some feature"
    using assms by (simp add: getExperimentalFeaturesList_def)
  from settings_at [OF this] obtain s v where
    s: "getExperimentalFeatureSettings w = Inr s"
    and v: "getProp (orElse (storedValue w) (Obj [])) id' = Inr v"
    and sv: "s id' = Some (if v = Str ''alwaysOn'' \<or> v = Str ''alwaysOff''
                       then \<lparr>enabled = (v = Str ''alwaysOn''), manuallySet = True\<rparr>
                       else \<lparr>enabled = getDefaultKey w feature, manuallySet = False\<rparr>)"
    by blast
  have k: "getDefaultKey w feature =
      (if production w then productionDefault feature else developmentDefault feature)"
    by (simp add: getDefaultKey_def)
  show ?thesis
    unfolding Storage_get_def using s v sv [unfolded k] by blast
qed

text \<open>Claim C3 in the example, with \<^verbatim>\<open>featureA\<close> stored as \<^verbatim>\<open>alwaysOff\<close>.\<close>

theorem getExperimentalFeatureSettings_resolves_witness:
  "map_of (getExperimentalFeaturesList (exampleWorld returns (Obj [(''featureA'', Str ''alwaysOff'')])))
     ''featureA'' = Some featureA \<and>
   (\<exists>settings.
      getExperimentalFeatureSettings (exampleWorld returns (Obj [(''featureA'', Str ''alwaysOff'')]))
        = Inr settings \<and>
      settings ''featureA'' = Some \<lparr>enabled = False, manuallySet = True\<rparr>)"
proof -
  have h: "map_of (getExperimentalFeaturesList (exampleWorld returns (Obj [(''featureA'', Str ''alwaysOff'')])))
     ''featureA'' = Some featureA"
    by (simp add: getExperimentalFeaturesList_def exampleWorld_def)
  show ?thesis
    using h getExperimentalFeatureSettings_resolves [OF h]
    by (auto simp add: Storage_get_def orElse_def exampleWorld_def)
qed

subsection \<open>C4: setting an override and returning to the default\<close>

text \<open>
  Claim C4 as stated does not hold for every call. In the example with a logger that
  throws, \<^verbatim>\<open>setExperimentalFeature("featureA", "alwaysOn")\<close> throws, and a resolution after
  it finds \<^verbatim>\<open>featureA\<close>, which is in the catalog, at its production default: not enabled and
  not manually set.
\<close>

theorem override_round_trip_counterexample:
  "map_of (getExperimentalFeaturesList (exampleWorld throws Undefined)) ''featureA'' = Some featureA \<and>
   fst (setExperimentalFeature ''featureA'' ''alwaysOn'' (exampleWorld throws Undefined))
     = Inl (LoggerError ''logger unavailable'') \<and>
   getExperimentalFeatureSettings
     (snd (setExperimentalFeature ''featureA'' ''alwaysOn'' (exampleWorld throws Undefined)))
     = Inr [''featureA'' \<mapsto> \<lparr>enabled = False, manuallySet = False\<rparr>] \<and>
   getExperimentalFeature ''featureA''
     (snd (setExperimentalFeature ''featureA'' ''alwaysOn'' (exampleWorld throws Undefined)))
     = Inr (Bool False)"
  by (simp add: run_defs example_defs)

text \<open>
  Claim C4, amended. For every id of the catalog other than \<^verbatim>\<open>__proto__\<close> and whatever is
  stored at the start, when the calls of the logger return:
  \<^verbatim>\<open>setExperimentalFeature(id, "alwaysOn")\<close> returns, and a resolution after it has
  \<open>enabled = True\<close> and \<open>manuallySet = True\<close> for the id; a following
  \<^verbatim>\<open>setExperimentalFeature(id, "default")\<close> returns, and a resolution after it has
  \<open>manuallySet = False\<close> and for \<open>enabled\<close> the default of the feature in the environment.
\<close>

theorem override_round_trip:
  assumes "map_of (getExperimentalFeaturesList w) id' = Some feature"
    and "id' \<noteq> ''__proto__''"
    and "eventLogger w id' ''alwaysOn'' = None"
    and "eventLogger w id' ''default'' = None"
  shows "fst (setExperimentalFeature id' ''alwaysOn'' w) = Inr () \<and>
    (\<exists>settings.
       getExperimentalFeatureSettings (snd (setExperimentalFeature id' ''alwaysOn'' w)) = Inr settings \<and>
       settings id' = Some \<lparr>enabled = True, manuallySet = True\<rparr>) \<and>
    fst (setExperimentalFeature id' ''default'' (snd (setExperimentalFeature id' ''alwaysOn'' w))) = Inr () \<and>
    (\<exists>settings.
       getExperimentalFeatureSettings
         (snd (setExperimentalFeature id' ''default'' (snd (setExperimentalFeature id' ''alwaysOn'' w))))
         = Inr settings \<and>
       settings id' =
         Some \<lparr>enabled = (if production w then productionDefault feature
                          else developmentDefault feature),
               manuallySet = False\<rparr>)"
proof -
  let ?w1 = "snd (setExperimentalFeature id' ''alwaysOn'' w)"
  let ?w2 = "snd (setExperimentalFeature id' ''default'' ?w1)"
  note r1 = setExperimentalFeature_returns [OF assms(3)]
  have l1: "eventLogger ?w1 id' ''default'' = None"
    using assms(4) by (simp add: r1(5))
  note r2 = setExperimentalFeature_returns [OF l1]
  have f1: "map_of (featuresList ?w1) id' = Some feature"
    using assms(1) by (simp add: r1(3) getExperimentalFeaturesList_def)
  have f2: "map_of (featuresList ?w2) id' = Some feature"
    using f1 by (simp add: r2(3))
  have st1: "storedValue ?w1 = Obj (assignString (spread (storedValue w)) id' ''alwaysOn'')"
    by (simp add: r1(2))
  have st2: "storedValue ?w2 =
      Obj (AList.delete id' (assignString (spread (storedValue w)) id' ''alwaysOn''))"
    by (simp add: r2(2) st1)
  have k: "getDefaultKey ?w2 feature =
      (if production w then productionDefault feature else developmentDefault feature)"
    by (simp add: getDefaultKey_def r2(4) r1(4))
  have a: "\<exists>settings. getExperimentalFeatureSettings ?w1 = Inr settings \<and>
       settings id' = Some \<lparr>enabled = True, manuallySet = True\<rparr>"
    using settings_at_object [OF f1 st1] by (simp add: assignString_same [OF assms(2)])
  have b: "\<exists>settings. getExperimentalFeatureSettings ?w2 = Inr settings \<and>
       settings id' = Some \<lparr>enabled = (if production w then productionDefault feature
                          else developmentDefault feature), manuallySet = False\<rparr>"
    using settings_at_object [OF f2 st2] by (simp add: delete_assignString k)
  show ?thesis
    using r1(1) r2(1) a b by blast
qed

text \<open>
  The amended claim C4 in the example, read through \<^verbatim>\<open>getExperimentalFeature\<close>: on after the
  first write, back to the production default, off, after the second.
\<close>

theorem override_round_trip_witness:
  "map_of (getExperimentalFeaturesList (exampleWorld returns Undefined)) ''featureA'' = Some featureA \<and>
   ''featureA'' \<noteq> ''__proto__'' \<and>
   eventLogger (exampleWorld returns Undefined) ''featureA'' ''alwaysOn'' = None \<and>
   eventLogger (exampleWorld returns Undefined) ''featureA'' ''default'' = None \<and>
   getExperimentalFeature ''featureA''
     (snd (setExperimentalFeature ''featureA'' ''alwaysOn'' (exampleWorld returns Undefined)))
     = Inr (Bool True) \<and>
   getExperimentalFeature ''featureA''
     (snd (setExperimentalFeature ''featureA'' ''default''
        (snd (setExperimentalFeature ''featureA'' ''alwaysOn'' (exampleWorld returns Undefined)))))
     = Inr (Bool False)"
proof -
  have h1: "map_of (getExperimentalFeaturesList (exampleWorld returns Undefined)) ''featureA'' = Some featureA"
    by (simp add: getExperimentalFeaturesList_def exampleWorld_def)
  have h2: "''featureA'' \<noteq> ''__proto__''" by simp
  have h3: "eventLogger (exampleWorld returns Undefined) ''featureA'' ''alwaysOn'' = None"
    by (simp add: example_defs)
  have h4: "eventLogger (exampleWorld returns Undefined) ''featureA'' ''default'' = None"
    by (simp add: example_defs)
  have p: "production (exampleWorld returns Undefined)" "\<not> productionDefault featureA"
    by (simp_all add: example_defs)
  show ?thesis
    using h1 h3 h4 override_round_trip [OF h1 h2 h3 h4] p
    by (auto simp add: getExperimentalFeature_def settingsProp_def)
qed

subsection \<open>C5: the subscribers are notified after the write\<close>

text \<open>
  Claim C5. In every run of \<^verbatim>\<open>setExperimentalFeature\<close>: either the logger throws and the
  world is as before, with nobody notified; or the run adds to the trace the call of the
  logger, then the write of the new map, then the calls of the subscribed \<^verbatim>\<open>update\<close>
  callbacks, each of which read from the store the map just written. That map is what the
  store holds at the end, and the state of every subscribed component is the resolution
  of it.
\<close>

theorem notification_follows_write:
  "case eventLogger w id' val of
     Some e \<Rightarrow> snd (setExperimentalFeature id' val w) = w
   | None \<Rightarrow>
       (\<exists>new settings.
          trace (snd (setExperimentalFeature id' val w)) =
            trace w @ [Logged id' val, StorageSet new]
            @ map (\<lambda>c. Updated c new) (subscribedComponents w) \<and>
          Storage_get (snd (setExperimentalFeature id' val w)) = new \<and>
          getExperimentalFeatureSettings (snd (setExperimentalFeature id' val w)) = Inr settings \<and>
          (\<forall>c \<in> set (subscribedComponents w).
             componentSettings (snd (setExperimentalFeature id' val w)) c = Some settings))"
proof (cases "eventLogger w id' val")
  case None
  note r = setExperimentalFeature_returns [OF None]
  from r(8) obtain s where
    s: "getExperimentalFeatureSettings (snd (setExperimentalFeature id' val w)) = Inr s"
    and cs: "componentSettings (snd (setExperimentalFeature id' val w)) =
             (\<lambda>c. if c \<in> set (subscribedComponents w) then Some s else componentSettings w c)"
    by blast
  have "\<forall>c \<in> set (subscribedComponents w).
          componentSettings (snd (setExperimentalFeature id' val w)) c = Some s"
    by (simp add: cs)
  with r(7) s show ?thesis
    unfolding None Storage_get_def by auto
next
  case (Some e)
  then show ?thesis by (simp add: setExperimentalFeature_def)
qed

text \<open>Claim C5 in the example with one component mounted.\<close>

theorem notification_follows_write_witness:
  "eventLogger (snd (useAllExperimentalFeatures 0 (exampleWorld returns Undefined)))
     ''featureA'' ''alwaysOn'' = None \<and>
   0 \<in> set (subscribedComponents (snd (useAllExperimentalFeatures 0 (exampleWorld returns Undefined)))) \<and>
   (\<exists>settings.
     trace (snd (setExperimentalFeature ''featureA'' ''alwaysOn''
              (snd (useAllExperimentalFeatures 0 (exampleWorld returns Undefined))))) =
       [Logged ''featureA'' ''alwaysOn'',
        StorageSet (Obj [(''featureA'', Str ''alwaysOn'')]),
        Updated 0 (Obj [(''featureA'', Str ''alwaysOn'')])] \<and>
     componentSettings (snd (setExperimentalFeature ''featureA'' ''alwaysOn''
              (snd (useAllExperimentalFeatures 0 (exampleWorld returns Undefined))))) 0 = Some settings \<and>
     settings ''featureA'' = Some \<lparr>enabled = True, manuallySet = True\<rparr>)"
proof -
  let ?w = "snd (useAllExperimentalFeatures 0 (exampleWorld returns Undefined))"
  have h: "eventLogger ?w ''featureA'' ''alwaysOn'' = None"
    by (simp add: run_defs example_defs)
  show ?thesis
    using notification_follows_write [where w = ?w and id' = "''featureA''" and val = "''alwaysOn''"] h
    by (simp add: run_defs example_defs)
qed

subsection \<open>C6: every subscriber is notified once, in the order of registration\<close>




subsection \<open>C7: a malformed stored value\<close>

text \<open>
  Claim C7 as stated does not hold for every stored value that is not a map: an array
  is read by its indices. With the array \<^verbatim>\<open>["alwaysOn"]\<close> stored and a catalog whose one
  feature has the id \<^verbatim>\<open>0\<close>, off by default in production, resolution takes the element for
  an override of that id: enabled and manually set.
\<close>

theorem malformed_storage_array_counterexample:
  "Storage_get ((exampleWorld returns (Arr [Str ''alwaysOn'']))\<lparr>featuresList := [(''0'', featureA)]\<rparr>)
     = Arr [Str ''alwaysOn''] \<and>
   map_of (getExperimentalFeaturesList
     ((exampleWorld returns (Arr [Str ''alwaysOn'']))\<lparr>featuresList := [(''0'', featureA)]\<rparr>)) ''0''
     = Some featureA \<and>
   production ((exampleWorld returns (Arr [Str ''alwaysOn'']))\<lparr>featuresList := [(''0'', featureA)]\<rparr>) \<and>
   \<not> productionDefault featureA \<and>
   getExperimentalFeatureSettings
     ((exampleWorld returns (Arr [Str ''alwaysOn'']))\<lparr>featuresList := [(''0'', featureA)]\<rparr>)
     = Inr [''0'' \<mapsto> \<lparr>enabled = True, manuallySet = True\<rparr>]"
  by (simp add: run_defs example_defs showNat.simps digitChar_def)

text \<open>
  Claim C7, amended. Whatever is stored, resolution returns settings and throws nothing.
  In them an id of the catalog has \<open>manuallySet = False\<close> and the default of the environment
  whenever the stored value is not an object (nothing stored, \<^verbatim>\<open>null\<close>, a boolean, a
  number, a string), or is an object or an array whose entry under the id is anything
  but \<^verbatim>\<open>alwaysOn\<close> and \<^verbatim>\<open>alwaysOff\<close>; the entries of an array are its elements, under their
  indices.
\<close>

theorem malformed_storage_fails_open:
  "\<exists>settings.
     getExperimentalFeatureSettings w = Inr settings \<and>
     (\<forall>id' feature.
        map_of (getExperimentalFeaturesList w) id' = Some feature \<longrightarrow>
        (isObject (Storage_get w) \<longrightarrow>
           getProp (Storage_get w) id' \<noteq> Inr (Str ''alwaysOn'') \<and>
           getProp (Storage_get w) id' \<noteq> Inr (Str ''alwaysOff'')) \<longrightarrow>
        settings id' =
          Some \<lparr>enabled = (if production w then productionDefault feature
                           else developmentDefault feature),
                manuallySet = False\<rparr>)"
proof -
  obtain settings where s: "getExperimentalFeatureSettings w = Inr settings"
    using getExperimentalFeatureSettings_total by blast
  have "settings i = Some \<lparr>enabled = (if production w then productionDefault d
                           else developmentDefault d), manuallySet = False\<rparr>"
    if d: "map_of (getExperimentalFeaturesList w) i = Some d"
      and e: "isObject (Storage_get w) \<longrightarrow>
           getProp (Storage_get w) i \<noteq> Inr (Str ''alwaysOn'') \<and>
           getProp (Storage_get w) i \<noteq> Inr (Str ''alwaysOff'')"
    for i d
  proof -
    have "map_of (featuresList w) i = Some d"
      using d by (simp add: getExperimentalFeaturesList_def)
    from settings_at [OF this] s obtain v where
      v: "getProp (orElse (storedValue w) (Obj [])) i = Inr v"
      and sv: "settings i = Some (if v = Str ''alwaysOn'' \<or> v = Str ''alwaysOff''
                       then \<lparr>enabled = (v = Str ''alwaysOn''), manuallySet = True\<rparr>
                       else \<lparr>enabled = getDefaultKey w d, manuallySet = False\<rparr>)"
      by auto
    have "v \<noteq> Str ''alwaysOn'' \<and> v \<noteq> Str ''alwaysOff''"
    proof (cases "isObject (storedValue w)")
      case True
      with v e show ?thesis
        by (auto simp add: orElse_object Storage_get_def)
    next
      case False
      from getProp_orElse_primitive [OF False v] show ?thesis .
    qed
    with sv show ?thesis by (simp add: getDefaultKey_def)
  qed
  with s show ?thesis by blast
qed

text \<open>
  The amended claim C7 in the example, for a stored string (not an object) and for a
  map with an unrecognised entry.
\<close>

theorem malformed_storage_fails_open_witness:
  "map_of (getExperimentalFeaturesList (exampleWorld returns (Str ''alwaysOn''))) ''featureA''
     = Some featureA \<and>
   \<not> isObject (Storage_get (exampleWorld returns (Str ''alwaysOn''))) \<and>
   (\<exists>settings.
      getExperimentalFeatureSettings (exampleWorld returns (Str ''alwaysOn'')) = Inr settings \<and>
      settings ''featureA'' = Some \<lparr>enabled = False, manuallySet = False\<rparr>) \<and>
   map_of (getExperimentalFeaturesList (exampleWorld returns (Obj [(''featureA'', Str ''on'')])))
     ''featureA'' = Some featureA \<and>
   getProp (Storage_get (exampleWorld returns (Obj [(''featureA'', Str ''on'')]))) ''featureA''
     = Inr (Str ''on'') \<and>
   (\<exists>settings.
      getExperimentalFeatureSettings (exampleWorld returns (Obj [(''featureA'', Str ''on'')]))
        = Inr settings \<and>
      settings ''featureA'' = Some \<lparr>enabled = False, manuallySet = False\<rparr>)"
proof -
  let ?w1 = "exampleWorld returns (Str ''alwaysOn'')"
  let ?w2 = "exampleWorld returns (Obj [(''featureA'', Str ''on'')])"
  have a1: "map_of (getExperimentalFeaturesList ?w1) ''featureA'' = Some featureA"
    and a2: "map_of (getExperimentalFeaturesList ?w2) ''featureA'' = Some featureA"
    by (simp_all add: getExperimentalFeaturesList_def exampleWorld_def)
  have b1: "\<not> isObject (Storage_get ?w1)"
    and b2: "getProp (Storage_get ?w2) ''featureA'' = Inr (Str ''on'')"
    by (simp_all add: Storage_get_def exampleWorld_def)
  have p: "production ?w1" "production ?w2" "\<not> productionDefault featureA"
    by (simp_all add: example_defs)
  from malformed_storage_fails_open [of ?w1] a1 b1 p
  have c1: "\<exists>settings. getExperimentalFeatureSettings ?w1 = Inr settings \<and>
      settings ''featureA'' = Some \<lparr>enabled = False, manuallySet = False\<rparr>"
    by auto
  from malformed_storage_fails_open [of ?w2] a2 b2 p
  have c2: "\<exists>settings. getExperimentalFeatureSettings ?w2 = Inr settings \<and>
      settings ''featureA'' = Some \<lparr>enabled = False, manuallySet = False\<rparr>"
    by auto
  show ?thesis
    using a1 a2 b1 b2 c1 c2 by blast
qed

subsection \<open>C8: an id that is not in the catalog\<close>

text \<open>
  Claim C8: for every id that is not in the catalog, whatever is stored, both
  \<^verbatim>\<open>getExperimentalFeature(id)\<close> and \<^verbatim>\<open>useExperimentalFeature(id)\<close> return \<^verbatim>\<open>false\<close>. The guard
  \<^verbatim>\<open>if (!settings[id]) return false\<close> is there for it, and misses the ids that name a
  member of \<^verbatim>\<open>Object.prototype\<close>; for the other ids see \<open>unknown_id_gives_false\<close>. In the
  example the id
  \<^verbatim>\<open>constructor\<close> is not in the catalog; the read \<^verbatim>\<open>settings["constructor"]\<close> finds the
  inherited function, the guard lets it pass, and both \<^verbatim>\<open>getExperimentalFeature\<close> and
  \<^verbatim>\<open>useExperimentalFeature\<close> return its property \<^verbatim>\<open>enabled\<close>, which is \<^verbatim>\<open>undefined\<close> and not
  \<^verbatim>\<open>false\<close>.
\<close>

theorem unknown_feature_constructor:
  "''constructor'' \<notin> fst ` set (getExperimentalFeaturesList (exampleWorld returns Undefined)) \<and>
   getExperimentalFeature ''constructor'' (exampleWorld returns Undefined) = Inr Undefined \<and>
   fst (useExperimentalFeature ''constructor'' 0 (exampleWorld returns Undefined)) = Inr Undefined"
  by (simp add: run_defs example_defs)

subsection \<open>C9: writing \<^verbatim>\<open>alwaysOff\<close> twice\<close>



subsection \<open>C10: the entries of the other ids\<close>

text \<open>
  Claim C10. For every call \<^verbatim>\<open>setExperimentalFeature(id, value)\<close> and every other id, in the
  catalog or not, the entry of that id in the stored map after the call is its entry
  before the call: the write prunes nothing.
\<close>

theorem other_entries_carried_over:
  assumes "k \<noteq> id'"
  shows "map_of (spread (Storage_get (snd (setExperimentalFeature id' val w)))) k
           = map_of (spread (Storage_get w)) k"
proof (cases "eventLogger w id' val")
  case None
  note r = setExperimentalFeature_returns [OF None]
  show ?thesis
    using assms by (simp add: Storage_get_def r(2) assignString_other delete_conv')
next
  case (Some e)
  then show ?thesis by (simp add: setExperimentalFeature_def)
qed

text \<open>
  Claim C10 in the example, with an override stored for an id \<^verbatim>\<open>retired\<close> that is not in
  the catalog: it stays when the override of \<^verbatim>\<open>featureA\<close> is removed.
\<close>

theorem other_entries_carried_over_witness:
  "''retired'' \<noteq> ''featureA'' \<and>
   ''retired'' \<notin> fst ` set (getExperimentalFeaturesList
      (exampleWorld returns (Obj [(''retired'', Str ''alwaysOn''), (''featureA'', Str ''alwaysOn'')]))) \<and>
   Storage_get (snd (setExperimentalFeature ''featureA'' ''default''
      (exampleWorld returns (Obj [(''retired'', Str ''alwaysOn''), (''featureA'', Str ''alwaysOn'')]))))
     = Obj [(''retired'', Str ''alwaysOn'')] \<and>
   map_of (spread (Storage_get (snd (setExperimentalFeature ''featureA'' ''default''
      (exampleWorld returns (Obj [(''retired'', Str ''alwaysOn''), (''featureA'', Str ''alwaysOn'')]))))))
     ''retired'' = Some (Str ''alwaysOn'')"
proof -
  let ?w = "exampleWorld returns (Obj [(''retired'', Str ''alwaysOn''), (''featureA'', Str ''alwaysOn'')])"
  have h: "''retired'' \<noteq> ''featureA''" by simp
  have a: "''retired'' \<notin> fst ` set (getExperimentalFeaturesList ?w)"
    by (simp add: run_defs example_defs)
  have b: "Storage_get (snd (setExperimentalFeature ''featureA'' ''default'' ?w))
     = Obj [(''retired'', Str ''alwaysOn'')]"
    by (simp add: run_defs example_defs)
  have c: "map_of (spread (Storage_get ?w)) ''retired'' = Some (Str ''alwaysOn'')"
    by (simp add: run_defs example_defs)
  show ?thesis
    using h a b other_entries_carried_over [OF h, of "''default''" ?w] c by simp
qed

end
